theory Spec2Isabelle
  imports Complex_Main
begin

section \<open>Data model\<close>

text \<open>
  The program works on pandas data frames. A frame is modelled as the list of its rows, in
  index order. The columns the program reads are fields of the row records; the other
  columns (shipment id, origin, destination) are never read by the functions below and
  are left out.

  \<^item> A float is a real number. A float that may be NaN is a \<open>real option\<close>, \<open>None\<close>
    being NaN.
  \<^item> \<open>suppliers.csv\<close> and \<open>customers.csv\<close> give an identifier, a latitude and a longitude
    per row.
  \<^item> \<open>load_and_prepare_data\<close> joins every shipment to its supplier or customer with a
    left merge, so a row of \<open>inbound\<close> or \<open>outbound\<close> carries the node's columns, NaN
    where no node has the shipment's identifier, and the shipped volume.
  \<^item> \<open>read_csv\<close> gives the volume column the type int64 when every volume is written as
    an integer and float64 otherwise: a cell is \<open>Integral\<close> or \<open>Floating\<close>. The same
    type stands for a Python number passed as a rate, an \<open>int\<close> or a \<open>float\<close>.
  \<^item> \<open>calculate_total_cost\<close> adds the columns \<open>Distance_km\<close> and \<open>Cost\<close> to the
    frame it is given; \<open>None\<close> is a cell without a value (the column is not there yet).
\<close>

type_synonym coords = "real \<times> real"

type_synonym fl = "real option"

type_synonym point = "fl \<times> fl"

datatype number = Integral int | Floating real

fun number_value :: "number \<Rightarrow> real" where
  "number_value (Integral n) = real_of_int n"
| "number_value (Floating x) = x"

record 'c node_row =
  Node_ID :: string
  Latitude :: 'c
  Longitude :: 'c

record shipment_row = "fl node_row" +
  Volume_m3 :: number
  Distance_km :: "real option"
  Cost :: "real option"

type_synonym nodes = "real node_row list"
type_synonym shipments = "shipment_row list"

text \<open>An exception, by the name of its class.\<close>

datatype error = Raised string

text \<open>
  \<open>geopy.distance.distance(a, b).km\<close> is library code. The functions take it as the
  parameter \<open>distance\<close>: the length in kilometres of the path from the first point to the
  second, or the exception the call raises (geopy raises a \<open>ValueError\<close> on a coordinate
  that is not finite and on a latitude outside [-90, 90]).
\<close>

type_synonym distance_fn = "point \<Rightarrow> point \<Rightarrow> error + real"

section \<open>The cost aggregator\<close>

text \<open>The default values of the keyword arguments \<open>distance_cost\<close> and \<open>volume_cost\<close>.\<close>

definition default_distance_cost :: real where
  "default_distance_cost = 0.5"

definition default_volume_cost :: number where
  "default_volume_cost = Integral 10"

text \<open>
  The two row functions \<open>calculate_total_cost\<close> applies: an inbound shipment runs
  from its node to the warehouse, an outbound one from the warehouse to its node.
\<close>

definition inbound_distance :: "distance_fn \<Rightarrow> coords \<Rightarrow> shipment_row \<Rightarrow> error + real" where
  "inbound_distance distance warehouse_coords row =
     distance (Latitude row, Longitude row)
       (Some (fst warehouse_coords), Some (snd warehouse_coords))"

definition outbound_distance :: "distance_fn \<Rightarrow> coords \<Rightarrow> shipment_row \<Rightarrow> error + real" where
  "outbound_distance distance warehouse_coords row =
     distance (Some (fst warehouse_coords), Some (snd warehouse_coords))
       (Latitude row, Longitude row)"

text \<open>
  \<open>frame.apply(f, axis=1)\<close> calls \<open>f\<close> on the rows in order; the first exception ends
  the call.
\<close>

fun apply_rows :: "(shipment_row \<Rightarrow> error + real) \<Rightarrow> shipments \<Rightarrow> error + real list" where
  "apply_rows f [] = Inr []"
| "apply_rows f (row # rows) =
     (case f row of
        Inl e \<Rightarrow> Inl e
      | Inr d \<Rightarrow> (case apply_rows f rows of Inl e \<Rightarrow> Inl e | Inr ds \<Rightarrow> Inr (d # ds)))"

text \<open>
  \<open>frame["Distance_km"] = frame.apply(f, axis=1)\<close>. On a frame without rows \<open>apply\<close>
  gives back a frame, not a column, and assigning it to the one column raises a
  \<open>ValueError\<close>. An exception of \<open>f\<close> leaves the call before anything is assigned.
\<close>

definition assign_distance ::
  "(shipment_row \<Rightarrow> error + real) \<Rightarrow> shipments \<Rightarrow> error + shipments" where
  "assign_distance f frame =
     (if frame = [] then Inl (Raised ''ValueError'')
      else (case apply_rows f frame of
              Inl e \<Rightarrow> Inl e
            | Inr ds \<Rightarrow> Inr (map (\<lambda>(row, d). row\<lparr>Distance_km := Some d\<rparr>) (zip frame ds))))"

text \<open>
  \<open>frame["Volume_m3"] * volume_cost\<close>, one cell. An int64 cell times a Python \<open>int\<close> is
  an int64 product, which wraps; with a float on either side the product is a float.
\<close>

definition wrap_int64 :: "int \<Rightarrow> int" where
  "wrap_int64 n = (n + 2 ^ 63) mod 2 ^ 64 - 2 ^ 63"

fun times_rate :: "number \<Rightarrow> number \<Rightarrow> real" where
  "times_rate (Integral v) (Integral c) = real_of_int (wrap_int64 (v * c))"
| "times_rate v c = number_value v * number_value c"

text \<open>
  \<open>frame["Cost"] = frame["Distance_km"] * distance_cost + frame["Volume_m3"] * volume_cost\<close>,
  cell by cell: a row without a distance gets no cost. The distance column holds floats,
  so its product with \<open>distance_cost\<close> is a float whether the rate is an \<open>int\<close> or a
  \<open>float\<close>: the rate is given by its value.
\<close>

definition set_cost :: "real \<Rightarrow> number \<Rightarrow> shipment_row \<Rightarrow> shipment_row" where
  "set_cost distance_cost volume_cost row =
     row\<lparr>Cost := map_option (\<lambda>d. d * distance_cost + times_rate (Volume_m3 row) volume_cost)
                    (Distance_km row)\<rparr>"

text \<open>\<open>Series.sum()\<close> adds the cells that hold a value; the sum of no cell is 0.\<close>

definition column_sum :: "(shipment_row \<Rightarrow> real option) \<Rightarrow> shipments \<Rightarrow> real" where
  "column_sum col frame = sum_list (map (\<lambda>row. case col row of None \<Rightarrow> 0 | Some v \<Rightarrow> v) frame)"

text \<open>
  \<open>calculate_total_cost\<close> assigns two columns of each frame it is given, so the model
  returns, with the total or the exception, both frames as the call leaves them: an
  exception in the inbound part leaves both as they were, one in the outbound part leaves
  the inbound frame written.
\<close>

definition calculate_total_cost ::
  "distance_fn \<Rightarrow> coords \<Rightarrow> shipments \<Rightarrow> shipments \<Rightarrow> real \<Rightarrow> number
     \<Rightarrow> (error + real) \<times> shipments \<times> shipments" where
  "calculate_total_cost distance warehouse_coords inbound outbound distance_cost volume_cost =
     (let (warehouse_lat, warehouse_lon) = warehouse_coords
      in case assign_distance (inbound_distance distance (warehouse_lat, warehouse_lon)) inbound of
           Inl e \<Rightarrow> (Inl e, inbound, outbound)
         | Inr inbound1 \<Rightarrow>
             (let inbound2 = map (set_cost distance_cost volume_cost) inbound1
              in case assign_distance
                        (outbound_distance distance (warehouse_lat, warehouse_lon)) outbound of
                   Inl e \<Rightarrow> (Inl e, inbound2, outbound)
                 | Inr outbound1 \<Rightarrow>
                     (let outbound2 = map (set_cost distance_cost volume_cost) outbound1
                      in (Inr (column_sum Cost inbound2 + column_sum Cost outbound2),
                          inbound2, outbound2))))"

section \<open>The distance function\<close>

text \<open>
  Modelled from the spec: the distance function itself (\<open>geopy.distance.distance\<close>) is
  library code. The spec's \<open>distance_km(a, b)\<close> is the great-circle distance between two
  points, given in degrees, on a spherical Earth; it is written here with the haversine
  formula and the mean Earth radius. It fails on a point outside the spec's ranges, a
  latitude in [-90, 90] and a longitude in [-180, 180], and on no other.
\<close>

definition earth_radius_km :: real where
  "earth_radius_km = 6371.009"

definition radians :: "real \<Rightarrow> real" where
  "radians deg = deg * pi / 180"

definition great_circle_km :: "coords \<Rightarrow> coords \<Rightarrow> real" where
  "great_circle_km a b =
     (let (lat1, lon1) = a; (lat2, lon2) = b;
          h = (sin ((radians lat2 - radians lat1) / 2))\<^sup>2
              + cos (radians lat1) * cos (radians lat2)
                * (sin ((radians lon2 - radians lon1) / 2))\<^sup>2
      in 2 * earth_radius_km * arcsin (sqrt h))"

fun geo_point :: "point \<Rightarrow> coords option" where
  "geo_point (Some lat, Some lon) =
     (if - 90 \<le> lat \<and> lat \<le> 90 \<and> - 180 \<le> lon \<and> lon \<le> 180 then Some (lat, lon) else None)"
| "geo_point p = None"

definition distance_km :: distance_fn where
  "distance_km a b =
     (case (geo_point a, geo_point b) of
        (Some p, Some q) \<Rightarrow> Inr (great_circle_km p q)
      | _ \<Rightarrow> Inl (Raised ''ValueError''))"

section \<open>Column statistics\<close>

text \<open>
  \<open>Series.mean()\<close>, \<open>Series.min()\<close> and \<open>Series.max()\<close> of a column without rows are
  NaN, and arithmetic on floats gives NaN as soon as an operand is NaN.
\<close>

definition series_mean :: "real list \<Rightarrow> fl" where
  "series_mean xs = (if xs = [] then None else Some (sum_list xs / real (length xs)))"

fun series_min :: "real list \<Rightarrow> fl" where
  "series_min [] = None"
| "series_min (x # xs) = Some (fold min xs x)"

fun series_max :: "real list \<Rightarrow> fl" where
  "series_max [] = None"
| "series_max (x # xs) = Some (fold max xs x)"

definition fl_add :: "fl \<Rightarrow> fl \<Rightarrow> fl" where
  "fl_add a b = (case a of None \<Rightarrow> None | Some u \<Rightarrow> map_option (\<lambda>v. u + v) b)"

definition fl_div :: "fl \<Rightarrow> real \<Rightarrow> fl" where
  "fl_div a d = map_option (\<lambda>u. u / d) a"

section \<open>The optimizer\<close>

text \<open>
  \<open>scipy.optimize.minimize\<close> is library code, taken as the parameter \<open>minimize\<close>. A call
  gets the objective, the start \<open>x0\<close> and the bounds (one pair per axis), and yields
  \<^item> the calls it made, in order: \<open>Fun_eval c\<close> is a call of the objective at \<open>c\<close>,
    \<open>Callback c\<close> a call of the callback with the iterate \<open>c\<close>;
  \<^item> its outcome: the exception that leaves it (its own, or one the objective or the
    callback raised), or the result object with the fields \<open>x\<close>, \<open>fun\<close> and
    \<open>success\<close>.
  An exception of the objective or of the callback ends the run of a real solver and
  is its outcome: the trace of a real solver has no event after a call that raises. As a
  function of its arguments the solver is deterministic by construction.
\<close>

datatype event = Fun_eval coords | Callback coords

record OptimizeResult =
  opt_x :: coords
  opt_fun :: real
  opt_success :: bool

type_synonym bounds = "(fl \<times> fl) \<times> (fl \<times> fl)"

type_synonym solver =
  "(coords \<Rightarrow> error + real) \<Rightarrow> fl \<times> fl \<Rightarrow> bounds \<Rightarrow> event list \<times> (error + OptimizeResult)"

fun event_coords :: "event \<Rightarrow> coords" where
  "event_coords (Fun_eval c) = c"
| "event_coords (Callback c) = c"

text \<open>
  The initial guess: the means of the supplier and of the customer coordinates, averaged.
\<close>

definition initial_guess :: "nodes \<Rightarrow> nodes \<Rightarrow> fl \<times> fl" where
  "initial_guess suppliers customers =
     (fl_div (fl_add (series_mean (map Latitude suppliers))
                     (series_mean (map Latitude customers))) 2,
      fl_div (fl_add (series_mean (map Longitude suppliers))
                     (series_mean (map Longitude customers))) 2)"

text \<open>The \<open>bounds\<close> argument of the call of \<open>minimize\<close>.\<close>

definition supplier_bounds :: "nodes \<Rightarrow> bounds" where
  "supplier_bounds suppliers =
     ((series_min (map Latitude suppliers), series_max (map Latitude suppliers)),
      (series_min (map Longitude suppliers), series_max (map Longitude suppliers)))"

text \<open>
  The objective \<open>lambda coords: calculate_total_cost(coords, inbound, outbound)\<close>, with
  the default rates. What a call returns or raises does not depend on the two columns
  earlier calls have written (lemma \<open>calculate_total_cost_stale_columns\<close>), so the
  function handed to the solver is the one on the frames as \<open>optimize_with_history\<close>
  received them.
\<close>

definition objective :: "distance_fn \<Rightarrow> shipments \<Rightarrow> shipments \<Rightarrow> coords \<Rightarrow> error + real" where
  "objective distance inbound outbound coords =
     fst (calculate_total_cost distance coords inbound outbound
            default_distance_cost default_volume_cost)"

text \<open>
  The effect of the solver's calls on the program's state: each call of the objective and
  each call of the callback runs \<open>calculate_total_cost\<close> on the two frames, and the
  callback appends the total to \<open>cost_history\<close> when the call returns one.
\<close>

fun replay ::
  "distance_fn \<Rightarrow> event list \<Rightarrow> shipments \<Rightarrow> shipments \<Rightarrow> real list
     \<Rightarrow> real list \<times> shipments \<times> shipments" where
  "replay distance [] inbound outbound cost_history = (cost_history, inbound, outbound)"
| "replay distance (Fun_eval c # es) inbound outbound cost_history =
     (case calculate_total_cost distance c inbound outbound
             default_distance_cost default_volume_cost of
        (r, inbound', outbound') \<Rightarrow> replay distance es inbound' outbound' cost_history)"
| "replay distance (Callback xk # es) inbound outbound cost_history =
     (case calculate_total_cost distance xk inbound outbound
             default_distance_cost default_volume_cost of
        (r, inbound', outbound') \<Rightarrow>
          replay distance es inbound' outbound'
            (case r of Inl e \<Rightarrow> cost_history | Inr v \<Rightarrow> cost_history @ [v]))"

definition solver_call ::
  "distance_fn \<Rightarrow> solver \<Rightarrow> shipments \<Rightarrow> shipments \<Rightarrow> nodes \<Rightarrow> nodes
     \<Rightarrow> event list \<times> (error + OptimizeResult)" where
  "solver_call distance minimize inbound outbound suppliers customers =
     minimize (objective distance inbound outbound)
       (initial_guess suppliers customers) (supplier_bounds suppliers)"

text \<open>
  \<open>optimize_with_history\<close>: the outcome (the exception that leaves \<open>minimize\<close>, or the
  triple of \<open>result.x\<close>, \<open>result.fun\<close> and \<open>cost_history\<close>) and the two frames as the
  run leaves them.
\<close>

definition optimize_with_history ::
  "distance_fn \<Rightarrow> solver \<Rightarrow> shipments \<Rightarrow> shipments \<Rightarrow> nodes \<Rightarrow> nodes
     \<Rightarrow> (error + coords \<times> real \<times> real list) \<times> shipments \<times> shipments" where
  "optimize_with_history distance minimize inbound outbound suppliers customers =
     (case solver_call distance minimize inbound outbound suppliers customers of
        (events, outcome) \<Rightarrow>
          (case replay distance events inbound outbound [] of
             (cost_history, inbound', outbound') \<Rightarrow>
               (case outcome of
                  Inl e \<Rightarrow> Inl e
                | Inr result \<Rightarrow> Inr (opt_x result, opt_fun result, cost_history),
                inbound', outbound')))"


section \<open>What is assumed of the solver\<close>


text \<open>The \<open>fun\<close> field of a result is what the objective returns at its \<open>x\<close> field.\<close>

definition reports_objective_value :: "solver \<Rightarrow> bool" where
  "reports_objective_value minimize \<longleftrightarrow>
     (\<forall>f x0 bnds events result.
        minimize f x0 bnds = (events, Inr result) \<longrightarrow> f (opt_x result) = Inr (opt_fun result))"

text \<open>
  A small solver to run the definitions on. Where the start or a bound is NaN its first
  call of the objective, at a point that is not finite, raises the distance function's
  \<open>ValueError\<close>; a lower bound above its upper bound is a \<open>ValueError\<close> of the solver.
  Otherwise it clips the start into the box and evaluates the objective there; when that
  call raises, the exception leaves the solver, and when it returns, the solver reports
  the point as its one iterate and returns it, with the \<open>success\<close> flag it is told to
  set.
\<close>

definition clip :: "real \<Rightarrow> real \<Rightarrow> real \<Rightarrow> real" where
  "clip lo hi v = min hi (max lo v)"

fun one_step_solver :: "bool \<Rightarrow> solver" where
  "one_step_solver converged f (Some a, Some b) ((Some lo1, Some hi1), (Some lo2, Some hi2)) =
     (if lo1 \<le> hi1 \<and> lo2 \<le> hi2
      then (let c = (clip lo1 hi1 a, clip lo2 hi2 b)
            in case f c of
                 Inl e \<Rightarrow> ([Fun_eval c], Inl e)
               | Inr v \<Rightarrow>
                   ([Fun_eval c, Callback c],
                    Inr \<lparr>opt_x = c, opt_fun = v, opt_success = converged\<rparr>))
      else ([], Inl (Raised ''ValueError'')))"
| "one_step_solver converged f x0 bnds = ([], Inl (Raised ''ValueError''))"

text \<open>A solver that differs from \<open>minimize\<close> in the \<open>success\<close> flag of its results only.\<close>

definition with_success :: "bool \<Rightarrow> solver \<Rightarrow> solver" where
  "with_success flag minimize f x0 bnds =
     (case minimize f x0 bnds of
        (events, outcome) \<Rightarrow> (events, map_sum id (\<lambda>result. result\<lparr>opt_success := flag\<rparr>) outcome))"

section \<open>Auxiliary definitions\<close>

text \<open>A frame without the two columns \<open>calculate_total_cost\<close> writes.\<close>

definition drop_computed :: "shipments \<Rightarrow> shipments" where
  "drop_computed frame = map (\<lambda>row. row\<lparr>Distance_km := None, Cost := None\<rparr>) frame"

text \<open>
  The two assignments of \<open>calculate_total_cost\<close> to one frame: the distances \<open>f row\<close>
  go into \<open>Distance_km\<close>, then the costs are set from them.
\<close>

definition fill_frame ::
  "(shipment_row \<Rightarrow> error + real) \<Rightarrow> real \<Rightarrow> number \<Rightarrow> shipments \<Rightarrow> error + shipments" where
  "fill_frame f dc vc frame = map_sum id (map (set_cost dc vc)) (assign_distance f frame)"

text \<open>
  The row a call leaves where the distance of the row is \<open>d\<close>: the distance and the cost
  are written, the other columns are as they were.
\<close>

definition written_row :: "real \<Rightarrow> number \<Rightarrow> real \<Rightarrow> shipment_row \<Rightarrow> shipment_row" where
  "written_row dc vc d row =
     row\<lparr>Distance_km := Some d, Cost := Some (d * dc + times_rate (Volume_m3 row) vc)\<rparr>"

text \<open>
  The product of a volume cell and a rate is exact: a float is involved, or the integer
  product is an int64.
\<close>

fun exact_product :: "number \<Rightarrow> number \<Rightarrow> bool" where
  "exact_product (Integral v) (Integral c) = (- (2 ^ 63) \<le> v * c \<and> v * c < 2 ^ 63)"
| "exact_product v c = True"

text \<open>The frames of the scenarios: one supplier and one customer at (50, 10), volume 100.\<close>

definition supplier1 :: "real node_row" where
  "supplier1 = \<lparr>Node_ID = ''Supplier_ID1'', Latitude = 50, Longitude = 10\<rparr>"

definition customer1 :: "real node_row" where
  "customer1 = \<lparr>Node_ID = ''Customer_ID1'', Latitude = 50, Longitude = 10\<rparr>"

definition inbound_row1 :: shipment_row where
  "inbound_row1 = \<lparr>Node_ID = ''Supplier_ID1'', Latitude = Some 50, Longitude = Some 10,
                   Volume_m3 = Floating 100, Distance_km = None, Cost = None\<rparr>"

definition outbound_row1 :: shipment_row where
  "outbound_row1 = \<lparr>Node_ID = ''Customer_ID1'', Latitude = Some 50, Longitude = Some 10,
                    Volume_m3 = Floating 100, Distance_km = None, Cost = None\<rparr>"

text \<open>An inbound shipment whose volume, read from an integer column, is 10^18.\<close>

definition inbound_row_int64 :: shipment_row where
  "inbound_row_int64 = \<lparr>Node_ID = ''Supplier_ID1'', Latitude = Some 50, Longitude = Some 10,
                        Volume_m3 = Integral 1000000000000000000,
                        Distance_km = None, Cost = None\<rparr>"

section \<open>Properties of the cost aggregator\<close>


lemma apply_rows_length: "apply_rows f frame = Inr ds \<Longrightarrow> length ds = length frame"
  by (induction frame arbitrary: ds) (auto split: sum.splits)

lemma apply_rows_defined:
  "\<forall>row \<in> set frame. \<exists>d. f row = Inr d
     \<Longrightarrow> apply_rows f frame = Inr (map (\<lambda>row. projr (f row)) frame)"
  by (induction frame) auto

lemma apply_rows_Inr:
  "apply_rows f frame = Inr ds \<Longrightarrow> ds = map (\<lambda>row. projr (f row)) frame
      \<and> (\<forall>row \<in> set frame. \<exists>d. f row = Inr d)"
  by (induction frame arbitrary: ds) (auto split: sum.splits)

lemma apply_rows_map:
  "apply_rows f (map h frame) = apply_rows (\<lambda>row. f (h row)) frame"
  by (induction frame) (auto split: sum.splits)

lemma set_cost_assigned:
  "set_cost dc vc (row\<lparr>Distance_km := Some d\<rparr>) = written_row dc vc d row"
  by (simp add: set_cost_def written_row_def)

lemma fill_frame_eq:
  "fill_frame f dc vc frame =
     (if frame = [] then Inl (Raised ''ValueError'')
      else (case apply_rows f frame of
              Inl e \<Rightarrow> Inl e
            | Inr ds \<Rightarrow> Inr (map (\<lambda>(row, d). written_row dc vc d row) (zip frame ds))))"
  by (simp add: fill_frame_def assign_distance_def set_cost_assigned case_prod_unfold comp_def
      split: sum.splits)

lemma fill_frame_defined:
  assumes "frame \<noteq> []" and "\<forall>row \<in> set frame. \<exists>d. f row = Inr d"
  shows "fill_frame f dc vc frame
           = Inr (map (\<lambda>row. written_row dc vc (projr (f row)) row) frame)"
proof -
  have "map (\<lambda>(row, d). written_row dc vc d row) (zip frame (map (\<lambda>row. projr (f row)) frame))
      = map (\<lambda>row. written_row dc vc (projr (f row)) row) frame"
    by (induction frame) simp_all
  then show ?thesis
    using assms by (simp add: fill_frame_eq apply_rows_defined)
qed

lemma fill_frame_Inr:
  assumes "fill_frame f dc vc frame = Inr frame'"
  shows "frame \<noteq> [] \<and> (\<forall>row \<in> set frame. \<exists>d. f row = Inr d)
          \<and> frame' = map (\<lambda>row. written_row dc vc (projr (f row)) row) frame"
proof -
  from assms have ne: "frame \<noteq> []"
    by (auto simp add: fill_frame_eq split: if_splits)
  from assms ne obtain ds where ds: "apply_rows f frame = Inr ds"
    by (auto simp add: fill_frame_eq split: sum.splits)
  from apply_rows_Inr[OF ds] have def: "\<forall>row \<in> set frame. \<exists>d. f row = Inr d" by simp
  from fill_frame_defined[OF ne def, of dc vc] assms ne def show ?thesis by simp
qed

lemma drop_computed_written:
  "drop_computed (map (\<lambda>row. written_row dc vc (g row) row) frame) = drop_computed frame"
  by (simp add: drop_computed_def written_row_def comp_def)

lemma fill_frame_keeps_data:
  "fill_frame f dc vc frame = Inr frame' \<Longrightarrow> drop_computed frame' = drop_computed frame"
  using fill_frame_Inr[of f dc vc frame frame'] by (simp add: drop_computed_written)

lemma fill_frame_drop_computed:
  assumes "\<And>row. f (row\<lparr>Distance_km := None, Cost := None\<rparr>) = f row"
  shows "fill_frame f dc vc (drop_computed frame) = fill_frame f dc vc frame"
proof -
  have ap: "apply_rows f (drop_computed frame) = apply_rows f frame"
    by (simp add: drop_computed_def apply_rows_map assms)
  have w: "map (\<lambda>(row, d). written_row dc vc d row) (zip (drop_computed frame) ds)
      = map (\<lambda>(row, d). written_row dc vc d row) (zip frame ds)" for ds
    unfolding drop_computed_def zip_map1
    by (simp add: written_row_def case_prod_unfold)
  have e: "drop_computed frame = [] \<longleftrightarrow> frame = []"
    by (simp add: drop_computed_def)
  show ?thesis
    unfolding fill_frame_eq ap w e ..
qed

lemma fill_frame_stale:
  assumes "\<And>row. f (row\<lparr>Distance_km := None, Cost := None\<rparr>) = f row"
    and "drop_computed frame' = drop_computed frame"
  shows "fill_frame f dc vc frame' = fill_frame f dc vc frame"
  using fill_frame_drop_computed[of f dc vc frame', OF assms(1)]
    fill_frame_drop_computed[of f dc vc frame, OF assms(1)] assms(2) by simp

lemma inbound_distance_data:
  "inbound_distance distance c (row\<lparr>Distance_km := None, Cost := None\<rparr>)
     = inbound_distance distance c row"
  by (simp add: inbound_distance_def)

lemma outbound_distance_data:
  "outbound_distance distance c (row\<lparr>Distance_km := None, Cost := None\<rparr>)
     = outbound_distance distance c row"
  by (simp add: outbound_distance_def)

text \<open>
  The call, one frame after the other.
\<close>

lemma calculate_total_cost_frames:
  "calculate_total_cost distance c inbound outbound dc vc =
     (case fill_frame (inbound_distance distance c) dc vc inbound of
        Inl e \<Rightarrow> (Inl e, inbound, outbound)
      | Inr inbound2 \<Rightarrow>
          (case fill_frame (outbound_distance distance c) dc vc outbound of
             Inl e \<Rightarrow> (Inl e, inbound2, outbound)
           | Inr outbound2 \<Rightarrow>
               (Inr (column_sum Cost inbound2 + column_sum Cost outbound2),
                inbound2, outbound2)))"
  by (cases c)
     (simp add: calculate_total_cost_def fill_frame_def Let_def split: sum.splits)

text \<open>
  What a call returns or raises does not depend on what the two written columns held
  before.
\<close>

lemma calculate_total_cost_stale_columns:
  assumes "drop_computed inbound' = drop_computed inbound"
    and "drop_computed outbound' = drop_computed outbound"
  shows "fst (calculate_total_cost distance c inbound' outbound' dc vc)
           = fst (calculate_total_cost distance c inbound outbound dc vc)"
proof -
  have i: "fill_frame (inbound_distance distance c) dc vc inbound'
      = fill_frame (inbound_distance distance c) dc vc inbound"
    by (rule fill_frame_stale[of "inbound_distance distance c", OF inbound_distance_data assms(1)])
  have o: "fill_frame (outbound_distance distance c) dc vc outbound'
      = fill_frame (outbound_distance distance c) dc vc outbound"
    by (rule fill_frame_stale[of "outbound_distance distance c", OF outbound_distance_data assms(2)])
  show ?thesis
    by (simp add: calculate_total_cost_frames i o split: sum.splits)
qed

lemma calculate_total_cost_keeps_data:
  "drop_computed (fst (snd (calculate_total_cost distance c inbound outbound dc vc)))
     = drop_computed inbound
   \<and> drop_computed (snd (snd (calculate_total_cost distance c inbound outbound dc vc)))
     = drop_computed outbound"
  by (auto simp add: calculate_total_cost_frames fill_frame_keeps_data split: sum.splits)


subsection \<open>A call that returns\<close>

lemma column_sum_written:
  "column_sum Cost (map (\<lambda>row. written_row dc vc (g row) row) frame)
     = (\<Sum>row\<leftarrow>frame. g row * dc + times_rate (Volume_m3 row) vc)"
  by (induction frame) (simp_all add: column_sum_def written_row_def)

lemma calculate_total_cost_defined:
  assumes "inbound \<noteq> []" and "outbound \<noteq> []"
    and "\<forall>row \<in> set inbound. \<exists>d. inbound_distance distance c row = Inr d"
    and "\<forall>row \<in> set outbound. \<exists>d. outbound_distance distance c row = Inr d"
  shows "calculate_total_cost distance c inbound outbound dc vc =
     (Inr ((\<Sum>row\<leftarrow>inbound. projr (inbound_distance distance c row) * dc
                + times_rate (Volume_m3 row) vc)
           + (\<Sum>row\<leftarrow>outbound. projr (outbound_distance distance c row) * dc
                + times_rate (Volume_m3 row) vc)),
      map (\<lambda>row. written_row dc vc (projr (inbound_distance distance c row)) row) inbound,
      map (\<lambda>row. written_row dc vc (projr (outbound_distance distance c row)) row) outbound)"
  by (simp add: calculate_total_cost_frames fill_frame_defined[OF assms(1,3)]
      fill_frame_defined[OF assms(2,4)] column_sum_written)

lemma great_circle_km_same: "great_circle_km a a = 0"
  by (cases a) (simp add: great_circle_km_def)

lemma distance_km_scenario: "distance_km (Some 50, Some 10) (Some 50, Some 10) = Inr 0"
  by (simp add: distance_km_def great_circle_km_same)

lemma scenario_cost:
  "calculate_total_cost distance_km (50, 10) [inbound_row1] [outbound_row1]
      default_distance_cost default_volume_cost
   = (Inr 2000, [inbound_row1\<lparr>Distance_km := Some 0, Cost := Some 1000\<rparr>],
      [outbound_row1\<lparr>Distance_km := Some 0, Cost := Some 1000\<rparr>])"
  by (simp add: calculate_total_cost_def assign_distance_def set_cost_def column_sum_def
      inbound_distance_def outbound_distance_def inbound_row1_def outbound_row1_def
      distance_km_scenario default_volume_cost_def)

subsection \<open>The effect on the frames\<close>

text \<open>
  C1, as the code has it. On two frames that have rows, with the distance to the
  candidate defined on every row, a call of \<open>calculate_total_cost\<close> overwrites the
  column \<open>Distance_km\<close> of both frames with the distance of each row and the column
  \<open>Cost\<close> with its cost, and leaves every other column, the rows and their order as
  they were. What a later call returns, at any candidate and with any rates, is the same
  on the frames the first call left as on the frames before it.
\<close>

theorem calculate_total_cost_frame_effect:
  assumes "inbound \<noteq> []" and "outbound \<noteq> []"
    and "\<forall>row \<in> set inbound. \<exists>d. inbound_distance distance c row = Inr d"
    and "\<forall>row \<in> set outbound. \<exists>d. outbound_distance distance c row = Inr d"
  shows "snd (calculate_total_cost distance c inbound outbound dc vc)
      = (map (\<lambda>row. written_row dc vc (projr (inbound_distance distance c row)) row) inbound,
         map (\<lambda>row. written_row dc vc (projr (outbound_distance distance c row)) row) outbound)
    \<and> fst (calculate_total_cost distance c'
        (fst (snd (calculate_total_cost distance c inbound outbound dc vc)))
        (snd (snd (calculate_total_cost distance c inbound outbound dc vc))) dc' vc')
     = fst (calculate_total_cost distance c' inbound outbound dc' vc')"
proof -
  note keep = calculate_total_cost_keeps_data[of distance c inbound outbound dc vc]
  have "fst (calculate_total_cost distance c'
        (fst (snd (calculate_total_cost distance c inbound outbound dc vc)))
        (snd (snd (calculate_total_cost distance c inbound outbound dc vc))) dc' vc')
     = fst (calculate_total_cost distance c' inbound outbound dc' vc')"
    using keep by (intro calculate_total_cost_stale_columns) simp_all
  then show ?thesis
    by (simp add: calculate_total_cost_defined[OF assms])
qed

text \<open>
  The scenario: both rows get the distance 0 and the cost 1000.
\<close>

theorem calculate_total_cost_frame_effect_witness:
  "snd (calculate_total_cost distance_km (50, 10) [inbound_row1] [outbound_row1]
          default_distance_cost default_volume_cost)
     = ([inbound_row1\<lparr>Distance_km := Some 0, Cost := Some 1000\<rparr>],
        [outbound_row1\<lparr>Distance_km := Some 0, Cost := Some 1000\<rparr>])"
  using calculate_total_cost_frame_effect[of "[inbound_row1]" "[outbound_row1]" distance_km
      "(50, 10)" default_distance_cost default_volume_cost]
  by (simp add: inbound_distance_def outbound_distance_def inbound_row1_def outbound_row1_def
      distance_km_scenario written_row_def default_volume_cost_def)

text \<open>
  C1 as stated fails: the frames a call leaves are not the frames it was given. One
  inbound and one outbound shipment, the candidate at (50, 10).
\<close>

theorem calculate_total_cost_mutates_counterexample:
  "snd (calculate_total_cost distance_km (50, 10) [inbound_row1] [outbound_row1]
          default_distance_cost default_volume_cost)
     = ([inbound_row1\<lparr>Distance_km := Some 0, Cost := Some 1000\<rparr>],
        [outbound_row1\<lparr>Distance_km := Some 0, Cost := Some 1000\<rparr>])
   \<and> snd (calculate_total_cost distance_km (50, 10) [inbound_row1] [outbound_row1]
          default_distance_cost default_volume_cost) \<noteq> ([inbound_row1], [outbound_row1])"
  by (simp add: scenario_cost) (simp add: inbound_row1_def)

subsection \<open>The total and the sign of the costs\<close>

lemma wrap_example: "wrap_int64 10000000000000000000 = - 8446744073709551616"
  by (simp add: wrap_int64_def)

text \<open>
  C6 at two inputs where the call does not give the sum of the claim. Without an
  inbound shipment the call raises a \<open>ValueError\<close> where the sum is that of the outbound
  shipment. With an inbound volume of 10^18 in an integer column and the default rates
  the int64 product wraps: the call returns -8446744073709550616 where the sum is
  10000000000000001000.
\<close>

theorem calculate_total_cost_departs_from_formula:
  "fst (calculate_total_cost distance_km (50, 10) [] [outbound_row1]
          default_distance_cost default_volume_cost) = Inl (Raised ''ValueError'')
   \<and> fst (calculate_total_cost distance_km (50, 10) [inbound_row_int64] [outbound_row1]
          default_distance_cost default_volume_cost) = Inr (- 8446744073709550616)
   \<and> (\<Sum>row\<leftarrow>[inbound_row_int64]. 0 * default_distance_cost
          + number_value (Volume_m3 row) * number_value default_volume_cost)
       + (\<Sum>row\<leftarrow>[outbound_row1]. 0 * default_distance_cost
          + number_value (Volume_m3 row) * number_value default_volume_cost)
       = 10000000000000001000"
  by (simp add: calculate_total_cost_def assign_distance_def set_cost_def column_sum_def
      inbound_distance_def outbound_distance_def inbound_row_int64_def outbound_row1_def
      distance_km_scenario default_volume_cost_def wrap_example)

text \<open>
  C8 at an input with volumes and rates that are not negative: the inbound volume is
  10^18 in an integer column, the rates are the defaults. The int64 product wraps, the
  cost of the inbound row is negative and so is the total.
\<close>

theorem int64_volume_cost_negative:
  "map Cost (fst (snd (calculate_total_cost distance_km (50, 10) [inbound_row_int64]
          [outbound_row1] default_distance_cost default_volume_cost)))
     = [Some (- 8446744073709551616)]
   \<and> fst (calculate_total_cost distance_km (50, 10) [inbound_row_int64] [outbound_row1]
          default_distance_cost default_volume_cost) = Inr (- 8446744073709550616)
   \<and> 0 \<le> number_value (Volume_m3 inbound_row_int64)
   \<and> 0 \<le> number_value (Volume_m3 outbound_row1)
   \<and> 0 \<le> default_distance_cost \<and> 0 \<le> number_value default_volume_cost"
  by (simp add: calculate_total_cost_def assign_distance_def set_cost_def column_sum_def
      inbound_distance_def outbound_distance_def inbound_row_int64_def outbound_row1_def
      distance_km_scenario default_volume_cost_def default_distance_cost_def wrap_example)


subsection \<open>Where the products are exact\<close>

lemma times_rate_exact:
  "exact_product v c \<Longrightarrow> times_rate v c = number_value v * number_value c"
proof (cases v; cases c)
  fix n m assume v: "v = Integral n" and c: "c = Integral m" and "exact_product v c"
  then have "- (2 ^ 63) \<le> n * m" "n * m < 2 ^ 63" by simp_all
  then have "wrap_int64 (n * m) = n * m"
    by (simp add: wrap_int64_def)
  then show ?thesis by (simp add: v c)
qed simp_all

text \<open>
  On frames that have rows, with the distance defined on every row and every product of
  a volume and the volume rate exact, the total is the sum over the rows of distance times
  distance rate plus volume times volume rate.
\<close>

lemma calculate_total_cost_formula_in_range:
  assumes "inbound \<noteq> []" and "outbound \<noteq> []"
    and "\<forall>row \<in> set inbound. \<exists>d. inbound_distance distance c row = Inr d"
    and "\<forall>row \<in> set outbound. \<exists>d. outbound_distance distance c row = Inr d"
    and "\<forall>row \<in> set (inbound @ outbound). exact_product (Volume_m3 row) volume_cost"
  shows "fst (calculate_total_cost distance c inbound outbound distance_cost volume_cost)
     = Inr ((\<Sum>row\<leftarrow>inbound. projr (inbound_distance distance c row) * distance_cost
                + number_value (Volume_m3 row) * number_value volume_cost)
           + (\<Sum>row\<leftarrow>outbound. projr (outbound_distance distance c row) * distance_cost
                + number_value (Volume_m3 row) * number_value volume_cost))"
proof -
  have "(\<Sum>row\<leftarrow>frame. g row * distance_cost + times_rate (Volume_m3 row) volume_cost)
      = (\<Sum>row\<leftarrow>frame. g row * distance_cost
            + number_value (Volume_m3 row) * number_value volume_cost)"
    if "\<forall>row \<in> set frame. exact_product (Volume_m3 row) volume_cost" for frame g
    using that by (induction frame) (simp_all add: times_rate_exact)
  from this[of inbound "\<lambda>row. projr (inbound_distance distance c row)"]
    this[of outbound "\<lambda>row. projr (outbound_distance distance c row)"] assms(5)
  show ?thesis
    by (simp add: calculate_total_cost_defined[OF assms(1-4)])
qed

text \<open>
  There, with distances, volumes and rates that are not negative, the total is not
  negative.
\<close>

lemma costs_nonnegative_in_range:
  assumes "inbound \<noteq> []" and "outbound \<noteq> []"
    and "\<forall>row \<in> set inbound. \<exists>d. inbound_distance distance c row = Inr d \<and> 0 \<le> d"
    and "\<forall>row \<in> set outbound. \<exists>d. outbound_distance distance c row = Inr d \<and> 0 \<le> d"
    and "\<forall>row \<in> set (inbound @ outbound).
           exact_product (Volume_m3 row) volume_cost \<and> 0 \<le> number_value (Volume_m3 row)"
    and "0 \<le> distance_cost" and "0 \<le> number_value volume_cost"
  shows "\<exists>total. fst (calculate_total_cost distance c inbound outbound distance_cost volume_cost)
           = Inr total \<and> 0 \<le> total"
proof -
  have i: "\<forall>row \<in> set inbound. \<exists>d. inbound_distance distance c row = Inr d"
    and o: "\<forall>row \<in> set outbound. \<exists>d. outbound_distance distance c row = Inr d"
    using assms(3,4) by blast+
  have e: "\<forall>row \<in> set (inbound @ outbound). exact_product (Volume_m3 row) volume_cost"
    using assms(5) by blast
  have "0 \<le> (\<Sum>row\<leftarrow>inbound. projr (inbound_distance distance c row) * distance_cost
                + number_value (Volume_m3 row) * number_value volume_cost)"
    using assms(3,5,6,7) by (intro sum_list_nonneg) (fastforce simp add: image_iff)
  moreover have "0 \<le> (\<Sum>row\<leftarrow>outbound. projr (outbound_distance distance c row) * distance_cost
                + number_value (Volume_m3 row) * number_value volume_cost)"
    using assms(4,5,6,7) by (intro sum_list_nonneg) (fastforce simp add: image_iff)
  ultimately show ?thesis
    by (simp add: calculate_total_cost_formula_in_range[OF assms(1,2) i o e])
qed

subsection \<open>Symmetry\<close>

lemma sin_half_diff_sq: "(sin ((u - v) / 2))\<^sup>2 = (sin ((v - u) / 2))\<^sup>2" for u v :: real
proof -
  have "(u - v) / 2 = - ((v - u) / 2)" by argo
  then have "sin ((u - v) / 2) = - sin ((v - u) / 2)" by (simp only: sin_minus)
  then show ?thesis by simp
qed

lemma great_circle_km_sym: "great_circle_km p q = great_circle_km q p"
  by (cases p; cases q)
     (simp add: great_circle_km_def sin_half_diff_sq[of "radians _" "radians _"] mult.commute)

lemma distance_km_sym: "distance_km a b = distance_km b a"
  by (simp add: distance_km_def great_circle_km_sym split: option.splits)

lemma distance_km_error: "distance_km a b = Inl e \<Longrightarrow> e = Raised ''ValueError''"
  by (simp add: distance_km_def split: option.splits)

lemma apply_rows_Inl:
  "apply_rows f frame = Inl e \<Longrightarrow> \<exists>row \<in> set frame. f row = Inl e"
  by (induction frame) (auto split: sum.splits)

lemma fill_frame_distance_km_error:
  assumes "fill_frame (outbound_distance distance_km c) dc vc frame = Inl e"
  shows "e = Raised ''ValueError''"
proof (cases "frame = []")
  case True
  with assms show ?thesis by (simp add: fill_frame_eq)
next
  case False
  with assms have "apply_rows (outbound_distance distance_km c) frame = Inl e"
    by (simp add: fill_frame_eq split: sum.splits)
  from apply_rows_Inl[OF this] show ?thesis
    by (auto simp add: outbound_distance_def dest: distance_km_error)
qed

text \<open>
  C7. The great-circle distance is symmetric, so the distance of a row is the same taken
  from the node to the candidate or from the candidate to the node, and what the call
  returns does not change when the inbound and the outbound shipments trade places.
\<close>

theorem distance_km_symmetric:
  "great_circle_km p q = great_circle_km q p
   \<and> distance_km a b = distance_km b a
   \<and> inbound_distance distance_km c row = outbound_distance distance_km c row
   \<and> fst (calculate_total_cost distance_km c inbound outbound dc vc)
       = fst (calculate_total_cost distance_km c outbound inbound dc vc)"
proof -
  have io: "inbound_distance distance_km c = outbound_distance distance_km c"
    by (rule ext) (simp add: inbound_distance_def outbound_distance_def distance_km_sym)
  have "fst (calculate_total_cost distance_km c inbound outbound dc vc)
       = fst (calculate_total_cost distance_km c outbound inbound dc vc)"
    by (auto simp add: calculate_total_cost_frames io split: sum.splits
        dest!: fill_frame_distance_km_error)
  with io show ?thesis
    using distance_km_sym[of a b] great_circle_km_sym[of p q] by simp
qed


section \<open>Properties of the optimizer\<close>

subsection \<open>The initial guess\<close>

text \<open>
  C4. With at least one supplier and one customer the initial guess is the midpoint of
  the two mean locations: the mean supplier latitude and the mean customer latitude,
  averaged, and the same for the longitudes.
\<close>

theorem initial_guess_midpoint_of_means:
  assumes "suppliers \<noteq> []" and "customers \<noteq> []"
  shows "initial_guess suppliers customers =
    (Some ((sum_list (map Latitude suppliers) / real (length suppliers)
             + sum_list (map Latitude customers) / real (length customers)) / 2),
     Some ((sum_list (map Longitude suppliers) / real (length suppliers)
             + sum_list (map Longitude customers) / real (length customers)) / 2))"
  using assms by (simp add: initial_guess_def series_mean_def fl_add_def fl_div_def)

text \<open>
  One supplier and one customer at (50, 10): the initial guess is (50, 10).
\<close>

theorem initial_guess_midpoint_of_means_witness:
  "initial_guess [supplier1] [customer1] = (Some 50, Some 10)"
  using initial_guess_midpoint_of_means[of "[supplier1]" "[customer1]"]
  by (simp add: supplier1_def customer1_def)

subsection \<open>The bounds\<close>






lemma scenario_objective:
  "objective distance_km [inbound_row1] [outbound_row1] (50, 10) = Inr 2000"
  by (simp add: objective_def scenario_cost)

lemma scenario_solver_call:
  "solver_call distance_km (one_step_solver flag) [inbound_row1] [outbound_row1]
      [supplier1] [customer1]
    = ([Fun_eval (50, 10), Callback (50, 10)],
       Inr \<lparr>opt_x = (50, 10), opt_fun = 2000, opt_success = flag\<rparr>)"
  by (simp add: solver_call_def initial_guess_def supplier_bounds_def
      series_mean_def fl_add_def fl_div_def supplier1_def customer1_def clip_def Let_def
      scenario_objective)


subsection \<open>Determinism\<close>

lemma objective_stale_columns:
  assumes "drop_computed inbound' = drop_computed inbound"
    and "drop_computed outbound' = drop_computed outbound"
  shows "objective distance inbound' outbound' = objective distance inbound outbound"
  by (rule ext) (simp add: objective_def calculate_total_cost_stale_columns[OF assms])

lemma replay_keeps_data:
  "drop_computed (fst (snd (replay distance es inbound outbound h))) = drop_computed inbound
   \<and> drop_computed (snd (snd (replay distance es inbound outbound h))) = drop_computed outbound"
proof (induction es arbitrary: inbound outbound h)
  case Nil
  show ?case by simp
next
  case (Cons e es)
  show ?case
    using Cons.IH calculate_total_cost_keeps_data[of distance "event_coords e" inbound outbound
        default_distance_cost default_volume_cost]
    by (cases e) (auto split: prod.splits)
qed

lemma calculate_total_cost_related:
  assumes "drop_computed a2 = drop_computed a1" and "drop_computed b2 = drop_computed b1"
    and "calculate_total_cost distance c a1 b1 dc vc = (r1, x1, y1)"
    and "calculate_total_cost distance c a2 b2 dc vc = (r2, x2, y2)"
  shows "r2 = r1 \<and> (x2 = x1 \<or> x1 = a1 \<and> x2 = a2) \<and> (y2 = y1 \<or> y1 = b1 \<and> y2 = b2)"
proof -
  have i: "fill_frame (inbound_distance distance c) dc vc a2
      = fill_frame (inbound_distance distance c) dc vc a1"
    by (rule fill_frame_stale[of "inbound_distance distance c", OF inbound_distance_data assms(1)])
  have o: "fill_frame (outbound_distance distance c) dc vc b2
      = fill_frame (outbound_distance distance c) dc vc b1"
    by (rule fill_frame_stale[of "outbound_distance distance c", OF outbound_distance_data assms(2)])
  from assms(3,4) show ?thesis
    by (auto simp add: calculate_total_cost_frames i o split: sum.splits)
qed

lemma replay_related:
  assumes "drop_computed a2 = drop_computed a1" and "drop_computed b2 = drop_computed b1"
    and "a2 = a1 \<or> a1 = i1 \<and> a2 = i2" and "b2 = b1 \<or> b1 = o1 \<and> b2 = o2"
    and "replay distance es a1 b1 h = (h1, x1, y1)"
    and "replay distance es a2 b2 h = (h2, x2, y2)"
  shows "h2 = h1 \<and> (x2 = x1 \<or> x1 = i1 \<and> x2 = i2) \<and> (y2 = y1 \<or> y1 = o1 \<and> y2 = o2)"
  using assms
proof (induction es arbitrary: a1 a2 b1 b2 h)
  case Nil
  then show ?case by auto
next
  case (Cons e es)
  let ?c = "event_coords e"
  obtain r1 u1 v1 where s1: "calculate_total_cost distance ?c a1 b1
      default_distance_cost default_volume_cost = (r1, u1, v1)"
    by (cases "calculate_total_cost distance ?c a1 b1 default_distance_cost default_volume_cost")
  obtain r2 u2 v2 where s2: "calculate_total_cost distance ?c a2 b2
      default_distance_cost default_volume_cost = (r2, u2, v2)"
    by (cases "calculate_total_cost distance ?c a2 b2 default_distance_cost default_volume_cost")
  from calculate_total_cost_related[OF Cons.prems(1,2) s1 s2]
  have r: "r2 = r1" and u: "u2 = u1 \<or> u1 = a1 \<and> u2 = a2"
    and v: "v2 = v1 \<or> v1 = b1 \<and> v2 = b2" by simp_all
  have d: "drop_computed u2 = drop_computed u1" "drop_computed v2 = drop_computed v1"
    using calculate_total_cost_keeps_data[of distance ?c a1 b1
        default_distance_cost default_volume_cost]
      calculate_total_cost_keeps_data[of distance ?c a2 b2
        default_distance_cost default_volume_cost] s1 s2 Cons.prems(1,2)
    by simp_all
  have u': "u2 = u1 \<or> u1 = i1 \<and> u2 = i2" using u Cons.prems(3) by auto
  have v': "v2 = v1 \<or> v1 = o1 \<and> v2 = o2" using v Cons.prems(4) by auto
  obtain h' where
    n1: "replay distance (e # es) a1 b1 h = replay distance es u1 v1 h'" and
    n2: "replay distance (e # es) a2 b2 h = replay distance es u2 v2 h'"
    using s1 s2 r by (cases e) simp_all
  from Cons.IH[OF d u' v'] Cons.prems(5,6) n1 n2 show ?case by simp
qed

text \<open>
  C9. A second run on the same input gives the same optimal coordinates, the same minimum
  cost and the same trajectory as the first. The second run finds the frames as the first
  one left them, with the two written columns filled; it has the same outcome, a result
  or an exception, and leaves the same frames.
\<close>

theorem optimize_with_history_repeatable:
  assumes "optimize_with_history distance minimize inbound outbound suppliers customers
             = (outcome, inbound', outbound')"
  shows "optimize_with_history distance minimize inbound' outbound' suppliers customers
             = (outcome, inbound', outbound')"
proof -
  obtain events result where call:
    "solver_call distance minimize inbound outbound suppliers customers = (events, result)"
    by (cases "solver_call distance minimize inbound outbound suppliers customers")
  obtain hist where rep: "replay distance events inbound outbound [] = (hist, inbound', outbound')"
    using assms call unfolding optimize_with_history_def by (auto split: prod.splits)
  have keep: "drop_computed inbound' = drop_computed inbound"
      "drop_computed outbound' = drop_computed outbound"
    using replay_keeps_data[of distance events inbound outbound "[]"] rep by simp_all
  have call': "solver_call distance minimize inbound' outbound' suppliers customers
      = (events, result)"
    using call by (simp add: solver_call_def objective_stale_columns[OF keep])
  obtain hist2 x2 y2 where rep2:
    "replay distance events inbound' outbound' [] = (hist2, x2, y2)"
    by (cases "replay distance events inbound' outbound' []")
  have "hist2 = hist \<and> (x2 = inbound' \<or> inbound' = inbound \<and> x2 = inbound')
      \<and> (y2 = outbound' \<or> outbound' = outbound \<and> y2 = outbound')"
    by (rule replay_related[OF keep _ _ rep rep2]) simp_all
  then have rep': "replay distance events inbound' outbound' [] = (hist, inbound', outbound')"
    using rep2 by auto
  show ?thesis
    using assms call call' rep rep' by (simp add: optimize_with_history_def)
qed

text \<open>
  The run of the scenario with the one-step solver: the start (50, 10) is the box, both
  distances are 0, the cost is 2000 and it is recorded once.
\<close>

lemma scenario_run:
  "optimize_with_history distance_km (one_step_solver flag) [inbound_row1] [outbound_row1]
      [supplier1] [customer1]
   = (Inr ((50, 10), 2000, [2000]),
      [inbound_row1\<lparr>Distance_km := Some 0, Cost := Some 1000\<rparr>],
      [outbound_row1\<lparr>Distance_km := Some 0, Cost := Some 1000\<rparr>])"
proof -
  have again: "calculate_total_cost distance_km (50, 10)
      [inbound_row1\<lparr>Distance_km := Some 0, Cost := Some 1000\<rparr>]
      [outbound_row1\<lparr>Distance_km := Some 0, Cost := Some 1000\<rparr>]
      default_distance_cost default_volume_cost
   = (Inr 2000, [inbound_row1\<lparr>Distance_km := Some 0, Cost := Some 1000\<rparr>],
      [outbound_row1\<lparr>Distance_km := Some 0, Cost := Some 1000\<rparr>])"
    by (simp add: calculate_total_cost_def assign_distance_def set_cost_def column_sum_def
      inbound_distance_def outbound_distance_def inbound_row1_def outbound_row1_def
      distance_km_scenario default_volume_cost_def)
  show ?thesis
    by (simp add: optimize_with_history_def scenario_solver_call scenario_cost again)
qed

text \<open>
  The scenario, run again on the frames its first run left.
\<close>

theorem optimize_with_history_repeatable_witness:
  "optimize_with_history distance_km (one_step_solver True)
      [inbound_row1\<lparr>Distance_km := Some 0, Cost := Some 1000\<rparr>]
      [outbound_row1\<lparr>Distance_km := Some 0, Cost := Some 1000\<rparr>] [supplier1] [customer1]
   = (Inr ((50, 10), 2000, [2000]),
      [inbound_row1\<lparr>Distance_km := Some 0, Cost := Some 1000\<rparr>],
      [outbound_row1\<lparr>Distance_km := Some 0, Cost := Some 1000\<rparr>])"
  using optimize_with_history_repeatable[OF scenario_run[of True]] .


subsection \<open>The reported cost\<close>

lemma reports_objective_valueD:
  assumes "reports_objective_value minimize"
    and "minimize f x0 bnds = (events, Inr result)"
  shows "f (opt_x result) = Inr (opt_fun result)"
  using assms unfolding reports_objective_value_def by (elim allE impE)

lemma one_step_solver_reports_objective_value: "reports_objective_value (one_step_solver flag)"
  unfolding reports_objective_value_def
proof (intro allI impI)
  fix f and x0 :: "fl \<times> fl" and bnds :: bounds and events result
  assume run: "one_step_solver flag f x0 bnds = (events, Inr result)"
  obtain a b la ha lb hb where "x0 = (a, b)" "bnds = ((la, ha), (lb, hb))"
    by (cases x0; cases bnds) auto
  with run show "f (opt_x result) = Inr (opt_fun result)"
    by (cases a; cases b; cases la; cases ha; cases lb; cases hb)
       (auto simp add: Let_def split: if_splits sum.splits)
qed

text \<open>
  C10. When a run returns, with a solver whose \<open>fun\<close> is what the objective returns
  at its \<open>x\<close>, the minimum cost returned is what \<open>calculate_total_cost\<close> returns with
  the default rates at the optimal coordinates returned, on the frames given as on the
  frames the run leaves.
\<close>

theorem reported_cost_is_cost_at_reported_location:
  assumes "reports_objective_value minimize"
    and "optimize_with_history distance minimize inbound outbound suppliers customers
           = (Inr (optimal_coords, optimal_cost, cost_history), inbound', outbound')"
  shows "fst (calculate_total_cost distance optimal_coords inbound outbound
                default_distance_cost default_volume_cost) = Inr optimal_cost
       \<and> fst (calculate_total_cost distance optimal_coords inbound' outbound'
                default_distance_cost default_volume_cost) = Inr optimal_cost"
proof -
  obtain events outcome where call:
    "solver_call distance minimize inbound outbound suppliers customers = (events, outcome)"
    by (cases "solver_call distance minimize inbound outbound suppliers customers")
  from assms(2) call obtain result where res: "outcome = Inr result"
    and x: "optimal_coords = opt_x result" and v: "optimal_cost = opt_fun result"
    and rep: "replay distance events inbound outbound [] = (cost_history, inbound', outbound')"
    unfolding optimize_with_history_def by (auto split: prod.splits sum.splits)
  from call res have "minimize (objective distance inbound outbound)
      (initial_guess suppliers customers) (supplier_bounds suppliers) = (events, Inr result)"
    by (simp add: solver_call_def)
  from reports_objective_valueD[OF assms(1) this]
  have first: "fst (calculate_total_cost distance optimal_coords inbound outbound
                default_distance_cost default_volume_cost) = Inr optimal_cost"
    by (simp add: objective_def x v)
  have keep: "drop_computed inbound' = drop_computed inbound"
      "drop_computed outbound' = drop_computed outbound"
    using replay_keeps_data[of distance events inbound outbound "[]"] rep by simp_all
  from first show ?thesis
    by (simp add: calculate_total_cost_stale_columns[OF keep])
qed

text \<open>
  The scenario: the cost returned, 2000, is the cost at the point returned, (50, 10).
\<close>

theorem reported_cost_is_cost_at_reported_location_witness:
  "fst (calculate_total_cost distance_km (50, 10) [inbound_row1] [outbound_row1]
          default_distance_cost default_volume_cost) = Inr 2000"
  using reported_cost_is_cost_at_reported_location[
      OF one_step_solver_reports_objective_value scenario_run[of True]]
  by simp

subsection \<open>A solver that did not converge\<close>

text \<open>
  C3, as the code has it. When the solver returns a result, converged or not, the
  optimizer returns the result's point and cost with the trajectory; what it returns and
  the frames it leaves are the same whatever the \<open>success\<close> flag of the result, so the
  triple carries no mark of convergence.
\<close>

theorem best_iterate_returned_without_marker:
  assumes "solver_call distance minimize inbound outbound suppliers customers
             = (events, Inr result)"
  shows "fst (optimize_with_history distance minimize inbound outbound suppliers customers)
           = Inr (opt_x result, opt_fun result, fst (replay distance events inbound outbound []))
       \<and> optimize_with_history distance (with_success flag minimize)
             inbound outbound suppliers customers
           = optimize_with_history distance minimize inbound outbound suppliers customers"
  using assms
  by (simp add: optimize_with_history_def solver_call_def with_success_def split: prod.splits)

text \<open>
  The scenario with a solver that reports no convergence.
\<close>

theorem best_iterate_returned_without_marker_witness:
  "fst (optimize_with_history distance_km (one_step_solver False) [inbound_row1] [outbound_row1]
      [supplier1] [customer1])
    = Inr ((50, 10), 2000, fst (replay distance_km [Fun_eval (50, 10), Callback (50, 10)]
         [inbound_row1] [outbound_row1] []))"
  using best_iterate_returned_without_marker[OF scenario_solver_call[of False], of True]
  by simp

text \<open>
  C3 as stated fails: a solver that reports no convergence and one that reports
  convergence, with the same point and cost, give the same return value and the same
  frames, so the caller cannot tell them apart.
\<close>

theorem non_convergence_not_marked_counterexample:
  "optimize_with_history distance_km (one_step_solver False) [inbound_row1] [outbound_row1]
      [supplier1] [customer1]
   = optimize_with_history distance_km (one_step_solver True) [inbound_row1] [outbound_row1]
      [supplier1] [customer1]
   \<and> map_sum id opt_success (snd (solver_call distance_km (one_step_solver False)
         [inbound_row1] [outbound_row1] [supplier1] [customer1])) = Inr False
   \<and> map_sum id opt_success (snd (solver_call distance_km (one_step_solver True)
         [inbound_row1] [outbound_row1] [supplier1] [customer1])) = Inr True"
  by (simp add: scenario_run scenario_solver_call)

subsection \<open>Empty input\<close>



end
